theory Spec2Isabelle
  imports Complex_Main "HOL-Library.Multiset"
begin

section \<open>Python values used by the dashboard\<close>

text \<open>
  The dashboard is one Python file, \<^verbatim>\<open>dash_new.py\<close>. Its own logic is the loader
  (\<^verbatim>\<open>load_data\<close>, \<^verbatim>\<open>process_pdf\<close>), the three blocks of
  \<^verbatim>\<open>display_recommendations\<close> (category detection, advice lines, budget allocation) and
  \<^verbatim>\<open>create_dashboard\<close>. pandas, tabula, plotly and streamlit are external: their
  parsers are parameters of the model, and their visible effects (messages, charts, calls) are
  recorded in the order the code performs them.

  Strings are byte strings, the UTF-8 form of Python's text. Python floats are modelled by
  exact rationals.
\<close>

datatype py_error =
    ZeroDivisionError
  | IndexError
  | KeyError
  | AttributeError
  | UnboundLocalError
  | Exception string

text \<open>
  \<open>lower\<close> folds the ASCII letters and leaves every other byte as it is. It stands for
  \<^verbatim>\<open>str.lower\<close> only where the code compares the result with an ASCII keyword
  (\<^verbatim>\<open>category\<close>, \<^verbatim>\<open>saving\<close>, \<^verbatim>\<open>invest\<close>, \<^verbatim>\<open>bill\<close>). There both decide alike:
  \<^verbatim>\<open>str.lower\<close> maps ASCII letters as \<open>lower\<close> does, and the only other characters whose
  lower-case form contains an ASCII letter yield \<open>k\<close>, or \<open>i\<close> followed by a combining dot;
  no keyword contains \<open>k\<close> and none ends in \<open>i\<close>. The text that \<^verbatim>\<open>str.lower\<close> returns
  for printing is not \<open>lower\<close>: see \<open>str_lower\<close> below.
\<close>

definition lower_char :: "char \<Rightarrow> char" where
  "lower_char c =
     (let n = (of_char c :: nat) in if 65 \<le> n \<and> n \<le> 90 then char_of (n + 32) else c)"

definition lower :: "string \<Rightarrow> string" where
  "lower s = map lower_char s"

definition endswith :: "string \<Rightarrow> string \<Rightarrow> bool" where
  "endswith s sfx = (length sfx \<le> length s \<and> drop (length s - length sfx) s = sfx)"

fun startswith :: "string \<Rightarrow> string \<Rightarrow> bool" where
  "startswith s [] = True"
| "startswith [] (p # ps) = False"
| "startswith (c # cs) (p # ps) = (c = p \<and> startswith cs ps)"

text \<open>\<^verbatim>\<open>sub in s\<close> on strings: \<open>sub\<close> occurs in \<open>s\<close> as a contiguous block.\<close>

fun py_in :: "string \<Rightarrow> string \<Rightarrow> bool" where
  "py_in sub [] = (sub = [])"
| "py_in sub (c # cs) = (startswith (c # cs) sub \<or> py_in sub cs)"

text \<open>Decimal rendering of a non-negative integer, as \<^verbatim>\<open>str\<close> does.\<close>

definition digit_char :: "nat \<Rightarrow> char" where
  "digit_char d = ''0123456789'' ! (d mod 10)"

function show_nat :: "nat \<Rightarrow> string" where
  "show_nat n = (if n < 10 then [digit_char n] else show_nat (n div 10) @ [digit_char (n mod 10)])"
  by pat_completeness auto
termination
  by (relation "measure id") auto

text \<open>
  The format specification \<^verbatim>\<open>:.2f\<close>: the nearest multiple of 1/100, a tie going to the
  even neighbour, printed with the sign, the integer part and two decimals.
\<close>

definition round_half_even :: "rat \<Rightarrow> int" where
  "round_half_even x =
     (let f = \<lfloor>x\<rfloor>; r = x - of_int f in
      if r < 1 / 2 then f else if 1 / 2 < r then f + 1 else if even f then f else f + 1)"

definition format_2f :: "rat \<Rightarrow> string" where
  "format_2f q =
     (let c = nat (round_half_even (\<bar>q\<bar> * 100)) in
      (if q < 0 then ''-'' else []) @ show_nat (c div 100) @ ''.'' @
      [digit_char (c mod 100 div 10), digit_char (c mod 10)])"

text \<open>
  Reading decimal text back. These are not functions of the program: the theorems use them
  to say which number a printed figure denotes. \<open>read_2f\<close> reads a text made of digits, a
  point and exactly two digits; any other text has no value.
\<close>

definition digit_value :: "char \<Rightarrow> nat option" where
  "digit_value c =
     (let n = (of_char c :: nat) in if 48 \<le> n \<and> n \<le> 57 then Some (n - 48) else None)"

fun read_digits :: "nat \<Rightarrow> string \<Rightarrow> nat option" where
  "read_digits acc [] = Some acc"
| "read_digits acc (c # cs) =
     (case digit_value c of None \<Rightarrow> None | Some d \<Rightarrow> read_digits (10 * acc + d) cs)"

definition read_nat :: "string \<Rightarrow> nat option" where
  "read_nat s = (if s = [] then None else read_digits 0 s)"

definition read_2f :: "string \<Rightarrow> rat option" where
  "read_2f s =
     (if length s < 4 \<or> s ! (length s - 3) \<noteq> CHR ''.'' then None
      else case (read_nat (take (length s - 3) s), read_nat (drop (length s - 2) s)) of
             (Some i, Some f) \<Rightarrow> Some (of_nat i + of_nat f / 100)
           | _ \<Rightarrow> None)"

section \<open>Tabular datasets\<close>

text \<open>
  A DataFrame is its columns in order; a column has a label, a dtype and its cells.
  \<open>Object\<close> is the dtype pandas gives to text columns, \<open>Int64\<close> and \<open>Float64\<close> are the
  dtypes that \<^verbatim>\<open>select_dtypes(include=["float", "int"])\<close> keeps.
\<close>

datatype dtype = Object | Int64 | Float64 | Bool | OtherDtype

datatype cell = Str string | Num rat | NaN

record column =
  label :: string
  dtype :: dtype
  cells :: "cell list"

type_synonym dataset = "column list"

text \<open>
  \<^verbatim>\<open>Series.unique()\<close>: the distinct values in order of first appearance. The values met
  so far are kept in \<open>seen\<close>; a value already there is skipped.
\<close>

fun unique_from :: "'a list \<Rightarrow> 'a list \<Rightarrow> 'a list" where
  "unique_from seen [] = seen"
| "unique_from seen (x # xs) =
     (if x \<in> set seen then unique_from seen xs else unique_from (seen @ [x]) xs)"

definition unique :: "'a list \<Rightarrow> 'a list" where
  "unique xs = unique_from [] xs"


text \<open>
  \<^verbatim>\<open>data[l].unique()\<close>. With one column labelled \<open>l\<close>, \<^verbatim>\<open>data[l]\<close> is that Series.
  With none it raises \<^verbatim>\<open>KeyError\<close>; with several it is a DataFrame, which has no
  \<^verbatim>\<open>unique\<close>, so the attribute access raises.
\<close>

definition column_unique :: "dataset \<Rightarrow> string \<Rightarrow> py_error + cell list" where
  "column_unique data l =
     (case filter (\<lambda>c. label c = l) data of
        [] \<Rightarrow> Inl KeyError
      | [c] \<Rightarrow> Inr (unique (cells c))
      | c # c' # cs \<Rightarrow> Inl AttributeError)"

section \<open>Effects\<close>

datatype palette = Bold | Pastel | Safe | Prism | Vivid

text \<open>
  A chart specification: the constructor called, its column bindings and its colour
  sequence. A binding is what a select box returned, \<open>None\<close> being Python's \<^verbatim>\<open>None\<close>.
\<close>

datatype chart =
    Bar "string option" "string option" palette
  | Line "string option" "string option" palette
  | Pie "string option" "string option" palette
  | Scatter3D "string option" "string option" "string option" "string option" palette
  | Area "string option" "string option" palette

datatype effect =
    StError string
  | CallReadCsv
  | CallReadPdf
  | CallConcat
  | StPlotlyChart chart

text \<open>
  A run of a function: the effects in order, and either the exception that left the function
  (\<open>Inl\<close>) or the value it returned (\<open>Inr\<close>).
\<close>

type_synonym 'a run = "effect list \<times> (py_error + 'a)"

section \<open>The loader\<close>

record uploaded_file =
  name :: string
  content :: string

text \<open>
  The parsers are external. Each of them either raises (\<open>Inl\<close> with the text of the
  exception) or returns. \<open>pd_concat\<close> is the row-wise concatenation
  \<^verbatim>\<open>pd.concat(df_list, ignore_index=True)\<close>; it is called inside the \<^verbatim>\<open>try\<close> block of
  \<^verbatim>\<open>process_pdf\<close>, so an exception it raises is caught there as well.
\<close>

record libs =
  pd_read_csv :: "uploaded_file \<Rightarrow> string + dataset"
  tabula_read_pdf :: "uploaded_file \<Rightarrow> string + dataset list"
  pd_concat :: "dataset list \<Rightarrow> string + dataset"

definition process_pdf :: "libs \<Rightarrow> uploaded_file \<Rightarrow> dataset option run" where
  "process_pdf L f =
     (case tabula_read_pdf L f of
        Inr df_list \<Rightarrow>
          if df_list \<noteq> [] then
            (case pd_concat L df_list of
               Inr d \<Rightarrow> ([CallReadPdf, CallConcat], Inr (Some d))
             | Inl e \<Rightarrow>
                 ([CallReadPdf, CallConcat, StError (''Error reading PDF: '' @ e)], Inr None))
          else ([CallReadPdf, StError ''No tables found in the PDF.''], Inr None)
      | Inl e \<Rightarrow> ([CallReadPdf, StError (''Error reading PDF: '' @ e)], Inr None))"

definition load_data :: "libs \<Rightarrow> uploaded_file \<Rightarrow> dataset option run" where
  "load_data L f =
     (if endswith (name f) ''.csv'' then
        (case pd_read_csv L f of
           Inr d \<Rightarrow> ([CallReadCsv], Inr (Some d))
         | Inl e \<Rightarrow> ([CallReadCsv], Inl (Exception e)))
      else if endswith (name f) ''.pdf'' then process_pdf L f
      else ([StError ''Unsupported file format. Please upload a CSV or PDF file.''], Inr None))"

section \<open>Category detection\<close>

text \<open>
  The categories are either the array that \<^verbatim>\<open>unique()\<close> returns or the literal Python
  list of the fallback; the code itself tells them apart with \<^verbatim>\<open>isinstance\<close>.
\<close>

datatype categories = NdArray "cell list" | PyList "string list"

definition fallback_categories :: "string list" where
  "fallback_categories =
     [''Essential Bills'', ''Savings'', ''Investment'', ''Entertainment'', ''Shopping'']"

text \<open>
  \<^verbatim>\<open>data.columns[data.columns.str.lower() == 'category']\<close> and
  \<^verbatim>\<open>data.select_dtypes(include=['object']).columns\<close>: the labels, in column order, that
  read \<open>category\<close> once lower-cased, and the labels of the text-typed columns.
\<close>

definition category_labels :: "dataset \<Rightarrow> string list" where
  "category_labels data = filter (\<lambda>l. lower l = ''category'') (map label data)"

definition categorical_columns :: "dataset \<Rightarrow> string list" where
  "categorical_columns data = map label (filter (\<lambda>c. dtype c = Object) data)"

definition detect_categories :: "dataset \<Rightarrow> py_error + categories" where
  "detect_categories data =
     (if ''category'' \<in> set (map lower (map label data)) then
        (case category_labels data of
           [] \<Rightarrow> Inl IndexError
         | l # ls \<Rightarrow> map_sum id NdArray (column_unique data l))
      else if categorical_columns data = [] then Inr (PyList fallback_categories)
      else
        (case categorical_columns data of
           [] \<Rightarrow> Inl IndexError
         | l # ls \<Rightarrow> map_sum id NdArray (column_unique data l)))"

section \<open>Recommendations\<close>

text \<open>
  Two builtins of Python are parameters of the model: \<^verbatim>\<open>str.lower\<close> as it returns text
  for printing (Unicode-aware), and \<^verbatim>\<open>str\<close> on a number, which the f-string of the heading
  applies to a category that is not text.
\<close>

record builtins =
  str_lower :: "string \<Rightarrow> string"
  str_number :: "rat \<Rightarrow> string"

definition py_str :: "builtins \<Rightarrow> cell \<Rightarrow> string" where
  "py_str B v = (case v of Str s \<Rightarrow> s | Num r \<Rightarrow> str_number B r | NaN \<Rightarrow> ''nan'')"

text \<open>
  One round of the loop over the selected categories: the lines written, and how the round
  ends. A selected category is a value of the category column. The heading is written first,
  with the bar-chart emoji (four bytes in UTF-8); then \<^verbatim>\<open>category.lower()\<close> is evaluated,
  which raises \<^verbatim>\<open>AttributeError\<close> when the category is a number or a missing value.
  \<open>savings_goal\<close> is the integer of the slider (0 to 5000).
\<close>

definition chart_emoji :: string where
  "chart_emoji = [CHR 0xF0, CHR 0x9F, CHR 0x93, CHR 0x8A]"

definition recommendations :: "builtins \<Rightarrow> nat \<Rightarrow> cell \<Rightarrow> string list \<times> (py_error + unit)" where
  "recommendations B savings_goal category =
     (let heading = chart_emoji @ '' '' @ py_str B category @ '' Recommendations:'' in
      case category of
        Str s \<Rightarrow>
          (heading #
           (if py_in ''saving'' (lower s) then
              [''- Set up automatic transfers to savings account'',
               ''- To reach your $'' @ show_nat savings_goal @ '' monthly goal, save $'' @
                 format_2f (of_nat savings_goal / 30) @ '' daily'']
            else if py_in ''invest'' (lower s) then
              [''- Consider low-cost index funds'',
               ''- Diversify your investment portfolio'']
            else if py_in ''bill'' (lower s) then
              [''- Set up automatic bill payments'',
               ''- Review subscriptions monthly'']
            else
              [''- Create a budget for '' @ s,
               ''- Track '' @ str_lower B s @ '' expenses regularly'']),
           Inr ())
      | Num r \<Rightarrow> ([heading], Inl AttributeError)
      | NaN \<Rightarrow> ([heading], Inl AttributeError))"

section \<open>Budget allocation\<close>

text \<open>
  A Python dict keeps its keys in insertion order; assigning to a key that is present
  replaces the value where the key stands.
\<close>

type_synonym 'k dict = "('k \<times> rat) list"

fun dict_set :: "'k dict \<Rightarrow> 'k \<Rightarrow> rat \<Rightarrow> 'k dict" where
  "dict_set [] k v = [(k, v)]"
| "dict_set ((k', v') # d) k v = (if k' = k then (k', v) # d else (k', v') # dict_set d k v)"

definition py_div :: "rat \<Rightarrow> int \<Rightarrow> py_error + rat" where
  "py_div a b = (if b = 0 then Inl ZeroDivisionError else Inr (a / of_int b))"

text \<open>
  The variables of the loop, and the divisors of the divisions performed so far, in order.
\<close>

record 'k alloc_state =
  allocation :: "'k dict"
  remaining :: rat
  divisors :: "int list"

text \<open>
  \<^verbatim>\<open>for i, category in enumerate(priority_categories)\<close>, from index \<open>i\<close> on; the list is
  what is left of \<^verbatim>\<open>priority_categories\<close>.
\<close>

fun allocate_from :: "nat \<Rightarrow> nat \<Rightarrow> 'k alloc_state \<Rightarrow> 'k list \<Rightarrow> py_error + 'k alloc_state" where
  "allocate_from num_categories i s [] = Inr s"
| "allocate_from num_categories i s (category # rest) =
     (if int i = int num_categories - 1
      then allocate_from num_categories (Suc i)
             (s\<lparr>allocation := dict_set (allocation s) category (remaining s)\<rparr>) rest
      else (case py_div (remaining s) (int num_categories - int i) of
              Inl e \<Rightarrow> Inl e
            | Inr share \<Rightarrow>
                allocate_from num_categories (Suc i)
                  (s\<lparr>allocation := dict_set (allocation s) category share,
                     remaining := remaining s - share,
                     divisors := divisors s @ [int num_categories - int i]\<rparr>) rest))"

text \<open>
  The allocation block. The result is the entries assigned to \<^verbatim>\<open>allocation\<close> and the
  divisors used. Under the guard \<^verbatim>\<open>num_categories > 0\<close> the dict is created, filled and
  charted; when the guard fails nothing is assigned, divided or drawn.
\<close>

definition budget_allocation :: "'k list \<Rightarrow> py_error + 'k dict \<times> int list" where
  "budget_allocation priority_categories =
     (let num_categories = length priority_categories in
      if num_categories > 0
      then (case allocate_from num_categories 0
                   \<lparr>allocation = [], remaining = 1, divisors = []\<rparr> priority_categories of
              Inl e \<Rightarrow> Inl e
            | Inr s \<Rightarrow> Inr (allocation s, divisors s))
      else Inr ([], []))"

section \<open>The chart builder\<close>

text \<open>
  The state of the widgets: for each select box, by its caption, the index the user has
  chosen. \<^verbatim>\<open>st.selectbox\<close> returns the option at that index, the first option when the
  index does not fit the options, and \<^verbatim>\<open>None\<close> when there is no option.
\<close>

type_synonym widgets = "string \<Rightarrow> nat"

definition selectbox :: "widgets \<Rightarrow> string \<Rightarrow> 'a list \<Rightarrow> 'a option" where
  "selectbox w caption options =
     (if options = [] then None
      else if w caption < length options then Some (options ! w caption)
      else Some (hd options))"

definition chart_types :: "string list" where
  "chart_types = [''Bar Chart'', ''Line Chart'', ''Pie Chart'', ''3D Scatter Plot'', ''Area Chart'']"

definition numeric_columns :: "dataset \<Rightarrow> string list" where
  "numeric_columns data = map label (filter (\<lambda>c. dtype c = Float64 \<or> dtype c = Int64) data)"

definition create_dashboard :: "widgets \<Rightarrow> dataset \<Rightarrow> unit run" where
  "create_dashboard w data =
     (let chart_type = selectbox w ''Select Chart Type'' chart_types in
      if numeric_columns data = [] then
        ([StError ''No numeric columns found for visualization.''], Inr ())
      else
        (let x_axis = selectbox w ''X-Axis'' (numeric_columns data);
             y_axis = selectbox w ''Y-Axis'' (numeric_columns data) in
         if chart_type = Some ''Bar Chart'' then
           ([StPlotlyChart (Bar x_axis y_axis Bold)], Inr ())
         else if chart_type = Some ''Line Chart'' then
           ([StPlotlyChart (Line x_axis y_axis Pastel)], Inr ())
         else if chart_type = Some ''Pie Chart'' then
           (let category = selectbox w ''Category Column'' (map label data) in
            ([StPlotlyChart (Pie category y_axis Safe)], Inr ()))
         else if chart_type = Some ''3D Scatter Plot'' then
           (let z_axis = selectbox w ''Z-Axis'' (numeric_columns data) in
            case data of
              [] \<Rightarrow> ([], Inl IndexError)
            | c # cs \<Rightarrow>
                ([StPlotlyChart (Scatter3D x_axis y_axis z_axis (Some (label c)) Prism)], Inr ()))
         else if chart_type = Some ''Area Chart'' then
           ([StPlotlyChart (Area x_axis y_axis Vivid)], Inr ())
         else ([], Inl UnboundLocalError)))"

text \<open>The axis selections a chart is built from.\<close>

fun axes :: "chart \<Rightarrow> string option list" where
  "axes (Bar x y p) = [x, y]"
| "axes (Line x y p) = [x, y]"
| "axes (Pie names values p) = [values]"
| "axes (Scatter3D x y z colour p) = [x, y, z]"
| "axes (Area x y p) = [x, y]"

text \<open>
  Two notions that are not functions of the program. \<open>always x\<close> is a collaborator that
  answers \<open>x\<close> whatever it is given; the examples use it for parsers and builtins.
  \<open>assign_all\<close> assigns one value to each key of a list in turn; the theorems use it to say
  what the allocation loop has computed.
\<close>

definition always :: "'b \<Rightarrow> 'a \<Rightarrow> 'b" where
  "always x y = x"

definition assign_all :: "rat \<Rightarrow> 'k list \<Rightarrow> 'k dict \<Rightarrow> 'k dict" where
  "assign_all v ks d = fold (\<lambda>k d'. dict_set d' k v) ks d"

section \<open>The budget allocator: equal shares\<close>

lemma assign_all_simps [simp]:
  "assign_all v [] d = d"
  "assign_all v (k # ks) d = assign_all v ks (dict_set d k v)"
  by (simp_all add: assign_all_def)

lemma allocate_from_uniform:
  assumes "0 < n" and "i + length ps = n" and "remaining s = of_nat (n - i) / of_nat n"
  shows "\<exists>s'. allocate_from n i s ps = Inr s'
           \<and> allocation s' = assign_all (1 / of_nat n) ps (allocation s)
           \<and> divisors s' = divisors s @ map (\<lambda>j. int n - int j) [i..<n - 1]"
  using assms
proof (induction ps arbitrary: i s)
  case Nil
  then show ?case by simp
next
  case (Cons c ps)
  show ?case
  proof (cases "int i = int n - 1")
    case True
    with Cons.prems have i: "i = n - 1" and ps: "ps = []" by auto
    from i Cons.prems have r: "remaining s = 1 / of_nat n"
      by simp
    from True i ps r show ?thesis by simp
  next
    case False
    with Cons.prems have lt: "i < n - 1" by auto
    then have nz: "int n - int i \<noteq> 0" by simp
    have share: "remaining s / of_int (int n - int i) = 1 / of_nat n"
      using Cons.prems lt by simp
    let ?s = "s\<lparr>allocation := dict_set (allocation s) c (1 / of_nat n),
                 remaining := remaining s - 1 / of_nat n,
                 divisors := divisors s @ [int n - int i]\<rparr>"
    have rem: "remaining ?s = of_nat (n - Suc i) / of_nat n"
      using Cons.prems lt by (simp add: field_simps)
    have len: "Suc i + length ps = n" using Cons.prems by simp
    from Cons.IH [OF \<open>0 < n\<close> len rem]
    obtain s' where s': "allocate_from n (Suc i) ?s ps = Inr s'"
      "allocation s' = assign_all (1 / of_nat n) ps (allocation ?s)"
      "divisors s' = divisors ?s @ map (\<lambda>j. int n - int j) [Suc i..<n - 1]"
      by blast
    have upt: "[i..<n - 1] = i # [Suc i..<n - 1]"
      using lt by (simp add: upt_conv_Cons)
    from False nz share s' upt show ?thesis
      by (simp add: py_div_def)
  qed
qed

lemma dict_set_fresh: "k \<notin> fst ` set d \<Longrightarrow> dict_set d k v = d @ [(k, v)]"
  by (induction d) auto

lemma assign_all_distinct:
  "distinct ks \<Longrightarrow> set ks \<inter> fst ` set d = {} \<Longrightarrow> assign_all v ks d = d @ map (\<lambda>k. (k, v)) ks"
proof (induction ks arbitrary: d)
  case Nil
  then show ?case by simp
next
  case (Cons k ks)
  then have fresh: "k \<notin> fst ` set d" by auto
  have "set ks \<inter> fst ` set (d @ [(k, v)]) = {}" using Cons.prems by auto
  with Cons fresh show ?case by (simp add: dict_set_fresh)
qed

lemma map_fst_dict_set:
  "map fst (dict_set d k v) = (if k \<in> set (map fst d) then map fst d else map fst d @ [k])"
  by (induction d) (fastforce simp: image_iff)+

lemma keys_dict_set: "fst ` set (dict_set d k v) = insert k (fst ` set d)"
proof -
  have "set (map fst (dict_set d k v)) = insert k (set (map fst d))"
    by (auto simp: map_fst_dict_set)
  then show ?thesis by simp
qed

lemma distinct_dict_set: "distinct (map fst d) \<Longrightarrow> distinct (map fst (dict_set d k v))"
  by (simp add: map_fst_dict_set)

lemma values_dict_set: "snd ` set (dict_set d k v) \<subseteq> insert v (snd ` set d)"
  by (induction d) (force split: if_splits)+

lemma keys_assign_all: "fst ` set (assign_all v ks d) = set ks \<union> fst ` set d"
  by (induction ks arbitrary: d) (auto simp: keys_dict_set)

lemma distinct_assign_all: "distinct (map fst d) \<Longrightarrow> distinct (map fst (assign_all v ks d))"
  by (induction ks arbitrary: d) (auto simp: distinct_dict_set)

lemma values_assign_all: "snd ` set (assign_all v ks d) \<subseteq> insert v (snd ` set d)"
proof (induction ks arbitrary: d)
  case Nil
  then show ?case by auto
next
  case (Cons k ks)
  from Cons.IH [of "dict_set d k v"] values_dict_set [of d k v]
  show ?case by auto
qed

lemma sum_list_const: "(\<forall>x \<in> set xs. x = (v::rat)) \<Longrightarrow> sum_list xs = of_nat (length xs) * v"
  by (induction xs) (auto simp: algebra_simps)

lemma length_assign_all_empty: "length (assign_all v ks []) = card (set ks)"
proof -
  have "distinct (map fst (assign_all v ks []))" by (rule distinct_assign_all) simp
  then have "length (assign_all v ks []) = card (fst ` set (assign_all v ks []))"
    by (metis distinct_card length_map set_map)
  then show ?thesis by (simp add: keys_assign_all)
qed

lemma budget_allocation_assign:
  "ps \<noteq> [] \<Longrightarrow> budget_allocation ps =
     Inr (assign_all (1 / of_nat (length ps)) ps [], map (\<lambda>j. int (length ps) - int j) [0..<length ps - 1])"
proof -
  assume ne: "ps \<noteq> []"
  let ?s = "\<lparr>allocation = [], remaining = 1, divisors = []\<rparr> :: 'a alloc_state"
  have "remaining ?s = of_nat (length ps - 0) / of_nat (length ps)" using ne by simp
  from allocate_from_uniform [OF _ _ this] ne
  obtain s' where "allocate_from (length ps) 0 ?s ps = Inr s'"
    "allocation s' = assign_all (1 / of_nat (length ps)) ps []"
    "divisors s' = map (\<lambda>j. int (length ps) - int j) [0..<length ps - 1]"
    by auto
  with ne show ?thesis by (simp add: budget_allocation_def Let_def)
qed


lemma map_of_dict_set: "map_of (dict_set d k v) = (map_of d)(k \<mapsto> v)"
  by (induction d) (auto simp: fun_eq_iff)

lemma map_of_assign_all:
  "map_of (assign_all v ks d) c = (if c \<in> set ks then Some v else map_of d c)"
  by (induction ks arbitrary: d) (auto simp: map_of_dict_set)

lemma sum_assign_all_empty:
  "sum_list (map snd (assign_all v ks [])) = of_nat (card (set ks)) * v"
proof -
  have "\<forall>x \<in> set (map snd (assign_all v ks [])). x = v"
    using values_assign_all [of v ks "[]"] by auto
  then have "sum_list (map snd (assign_all v ks [])) = of_nat (length (map snd (assign_all v ks []))) * v"
    by (rule sum_list_const)
  then show ?thesis by (simp add: length_assign_all_empty)
qed

lemma divisors_nonzero: "0 \<notin> set (map (\<lambda>j. int n - int j) [0..<n - 1])"
  by auto

text \<open>
  Claim C1. For a Priority Selection of \<open>n\<close> pairwise distinct labels the allocator returns
  an Allocation Map with exactly the \<open>n\<close> labels as keys, in the order selected; every label
  maps to \<open>1/n\<close> in exact arithmetic and the values sum to 1. For \<open>n = 0\<close> the map is empty
  and no division is performed. No division ever has the divisor 0.
\<close>

theorem budget_allocation_equal_shares:
  assumes "distinct ps"
  shows "\<exists>d ds. budget_allocation ps = Inr (d, ds)
           \<and> length d = length ps \<and> map fst d = ps
           \<and> (\<forall>c \<in> set ps. map_of d c = Some (1 / of_nat (length ps)))
           \<and> sum_list (map snd d) = (if ps = [] then 0 else 1)
           \<and> (ps = [] \<longrightarrow> ds = [])
           \<and> 0 \<notin> set ds"
proof (cases "ps = []")
  case True
  then show ?thesis by (simp add: budget_allocation_def)
next
  case False
  let ?v = "1 / of_nat (length ps) :: rat"
  let ?d = "assign_all ?v ps []"
  have d: "?d = map (\<lambda>k. (k, ?v)) ps"
    using assign_all_distinct [OF assms, of "[]" ?v] by simp
  have keys: "map fst ?d = ps" by (simp add: d comp_def)
  have sum: "sum_list (map snd ?d) = 1"
    using False assms by (simp add: sum_assign_all_empty distinct_card)
  have look: "\<forall>c \<in> set ps. map_of ?d c = Some ?v"
    by (simp add: map_of_assign_all)
  have len: "length ?d = length ps" by (simp add: d)
  from budget_allocation_assign [OF False] keys sum look len False divisors_nonzero [of "length ps"]
  show ?thesis by simp
qed

theorem budget_allocation_equal_shares_witness:
  "distinct [''Rent'', ''Food'', ''Savings'']
   \<and> (\<exists>d ds. budget_allocation [''Rent'', ''Food'', ''Savings''] = Inr (d, ds)
         \<and> length d = 3 \<and> map fst d = [''Rent'', ''Food'', ''Savings'']
         \<and> map_of d ''Rent'' = Some (1 / 3) \<and> map_of d ''Food'' = Some (1 / 3)
         \<and> map_of d ''Savings'' = Some (1 / 3)
         \<and> sum_list (map snd d) = 1 \<and> 0 \<notin> set ds)"
proof -
  have h: "distinct [''Rent'', ''Food'', ''Savings'']" by simp
  from budget_allocation_equal_shares [OF h] h show ?thesis
    by (simp add: numeral_3_eq_3)
qed

text \<open>
  Claim C6. For distinct labels, the share of a label does not depend on its position in the
  Priority Selection: any permutation of the selection gives every label the same share,
  \<open>1/n\<close> in exact arithmetic.
\<close>

theorem budget_allocation_order_independent:
  assumes "distinct ps" and "mset qs = mset ps"
  shows "\<exists>d ds e es. budget_allocation ps = Inr (d, ds) \<and> budget_allocation qs = Inr (e, es)
           \<and> (\<forall>c. map_of e c = map_of d c)
           \<and> (\<forall>c \<in> set ps. map_of e c = Some (1 / of_nat (length ps)))"
proof (cases "ps = []")
  case True
  with assms show ?thesis by (simp add: budget_allocation_def)
next
  case False
  from assms(2) have len: "length qs = length ps" by (metis size_mset)
  from assms(2) have set: "set qs = set ps" by (metis set_mset_mset)
  from False len have qne: "qs \<noteq> []" by auto
  show ?thesis
    using budget_allocation_assign [OF False] budget_allocation_assign [OF qne]
    by (simp add: map_of_assign_all len set)
qed

theorem budget_allocation_order_independent_witness:
  "distinct [''Rent'', ''Food'', ''Savings'']
   \<and> mset [''Savings'', ''Rent'', ''Food''] = mset [''Rent'', ''Food'', ''Savings'']
   \<and> (\<exists>d ds e es. budget_allocation [''Rent'', ''Food'', ''Savings''] = Inr (d, ds)
         \<and> budget_allocation [''Savings'', ''Rent'', ''Food''] = Inr (e, es)
         \<and> map_of e ''Savings'' = map_of d ''Savings''
         \<and> map_of e ''Rent'' = Some (1 / 3))"
proof -
  have h: "distinct [''Rent'', ''Food'', ''Savings'']" by simp
  have m: "mset [''Savings'', ''Rent'', ''Food''] = mset [''Rent'', ''Food'', ''Savings'']"
    by (simp add: add.commute)
  from budget_allocation_order_independent [OF h m] h m show ?thesis
    by (simp del: mset.simps) blast
qed

text \<open>
  Claim C9. When a label is repeated in the Priority Selection, later assignments overwrite
  earlier ones: the Allocation Map has one entry per distinct label, fewer than the length of
  the list, every entry is still \<open>1/n\<close>, and the values sum to (number of distinct labels)/n,
  strictly less than 1. The selection \<open>[A, A]\<close> yields the single entry \<open>A: 1/2\<close>.
\<close>

theorem budget_allocation_repeated_label:
  assumes "\<not> distinct ps"
  shows "\<exists>d ds. budget_allocation ps = Inr (d, ds)
           \<and> length d = card (set ps) \<and> length d < length ps
           \<and> (\<forall>c \<in> set ps. map_of d c = Some (1 / of_nat (length ps)))
           \<and> sum_list (map snd d) = of_nat (card (set ps)) / of_nat (length ps)
           \<and> sum_list (map snd d) < 1"
proof -
  from assms have ne: "ps \<noteq> []" by auto
  have card: "card (set ps) < length ps"
    using assms card_length [of ps] card_distinct [of ps] by linarith
  then have lt: "(of_nat (card (set ps)) :: rat) / of_nat (length ps) < 1"
    using ne by simp
  show ?thesis
    using budget_allocation_assign [OF ne] card lt
    by (simp add: map_of_assign_all length_assign_all_empty sum_assign_all_empty)
qed

theorem budget_allocation_repeated_label_witness:
  "\<not> distinct [''A'', ''A'']
   \<and> budget_allocation [''A'', ''A''] = Inr ([(''A'', 1 / 2)], [2])"
proof -
  have h: "\<not> distinct [''A'', ''A'']" by simp
  from budget_allocation_repeated_label [OF h] h show ?thesis
    by (simp add: budget_allocation_def py_div_def)
qed


section \<open>The loader: dispatch and failure\<close>

lemma endswith_same_length:
  "endswith s a \<Longrightarrow> endswith s b \<Longrightarrow> length a = length b \<Longrightarrow> a = b"
  by (simp add: endswith_def)

lemma length_lower [simp]: "length (lower s) = length s"
  by (simp add: lower_def)

lemma pdf_not_csv: "endswith s ''.pdf'' \<Longrightarrow> \<not> endswith s ''.csv''"
  using endswith_same_length [of s "''.pdf''" "''.csv''"] by auto

text \<open>
  Claim C5. The loader dispatches on the end of the file name: a name ending in \<open>.csv\<close> goes
  to the CSV parser (and to nothing else), a name ending in \<open>.pdf\<close> goes to the PDF path,
  and every other name, \<open>report.txt\<close> for one, produces the visible unsupported-format error
  and returns no dataset.
\<close>

theorem load_data_dispatch:
  "(endswith (name f) ''.csv'' \<longrightarrow>
      load_data L f =
        ([CallReadCsv],
         case pd_read_csv L f of Inr d \<Rightarrow> Inr (Some d) | Inl e \<Rightarrow> Inl (Exception e)))
   \<and> (endswith (name f) ''.pdf'' \<longrightarrow>
        load_data L f = process_pdf L f
        \<and> hd (fst (load_data L f)) = CallReadPdf
        \<and> CallReadCsv \<notin> set (fst (load_data L f)))
   \<and> (\<not> endswith (name f) ''.csv'' \<and> \<not> endswith (name f) ''.pdf'' \<longrightarrow>
        load_data L f =
          ([StError ''Unsupported file format. Please upload a CSV or PDF file.''], Inr None))"
  using pdf_not_csv [of "name f"]
  by (auto simp: load_data_def process_pdf_def split: sum.splits)

theorem load_data_dispatch_witness:
  "endswith ''data.csv'' ''.csv''
   \<and> load_data \<lparr>pd_read_csv = (\<lambda>f. Inr []), tabula_read_pdf = (\<lambda>f. Inr []), pd_concat = (\<lambda>dfs. Inr (concat dfs))\<rparr>
        \<lparr>name = ''data.csv'', content = []\<rparr> = ([CallReadCsv], Inr (Some []))
   \<and> endswith ''statement.pdf'' ''.pdf''
   \<and> load_data \<lparr>pd_read_csv = (\<lambda>f. Inr []), tabula_read_pdf = (\<lambda>f. Inr []), pd_concat = (\<lambda>dfs. Inr (concat dfs))\<rparr>
        \<lparr>name = ''statement.pdf'', content = []\<rparr>
      = ([CallReadPdf, StError ''No tables found in the PDF.''], Inr None)
   \<and> \<not> endswith ''report.txt'' ''.csv'' \<and> \<not> endswith ''report.txt'' ''.pdf''
   \<and> load_data \<lparr>pd_read_csv = (\<lambda>f. Inr []), tabula_read_pdf = (\<lambda>f. Inr []), pd_concat = (\<lambda>dfs. Inr (concat dfs))\<rparr>
        \<lparr>name = ''report.txt'', content = []\<rparr>
      = ([StError ''Unsupported file format. Please upload a CSV or PDF file.''], Inr None)"
proof -
  let ?L = "\<lparr>pd_read_csv = (\<lambda>f. Inr []), tabula_read_pdf = (\<lambda>f. Inr []), pd_concat = (\<lambda>dfs. Inr (concat dfs))\<rparr>"
  have c: "endswith ''data.csv'' ''.csv''" by (simp add: endswith_def)
  have p: "endswith ''statement.pdf'' ''.pdf''" by (simp add: endswith_def)
  have t: "\<not> endswith ''report.txt'' ''.csv'' \<and> \<not> endswith ''report.txt'' ''.pdf''"
    by (simp add: endswith_def)
  from load_data_dispatch [of "\<lparr>name = ''data.csv'', content = []\<rparr>" ?L]
       load_data_dispatch [of "\<lparr>name = ''statement.pdf'', content = []\<rparr>" ?L]
       load_data_dispatch [of "\<lparr>name = ''report.txt'', content = []\<rparr>" ?L]
       c p t
  show ?thesis by (simp add: process_pdf_def)
qed

text \<open>
  Claim C10. The dispatch is a case-sensitive suffix test: a name ending in an upper-case or
  mixed-case spelling of \<open>.csv\<close> or \<open>.pdf\<close> (such as \<open>.CSV\<close> or \<open>.Pdf\<close>) takes the
  unsupported-format branch and yields no dataset.
\<close>

theorem load_data_case_sensitive:
  assumes "endswith (name f) sfx"
    and "lower sfx = ''.csv'' \<or> lower sfx = ''.pdf''"
    and "sfx \<noteq> ''.csv''" and "sfx \<noteq> ''.pdf''"
  shows "load_data L f =
           ([StError ''Unsupported file format. Please upload a CSV or PDF file.''], Inr None)"
proof -
  from assms(2) have "length (lower sfx) = 4" by (auto simp del: length_lower)
  then have len: "length sfx = 4" by simp
  have "\<not> endswith (name f) ''.csv''"
    using endswith_same_length [OF assms(1), of "''.csv''"] len assms(3) by auto
  moreover have "\<not> endswith (name f) ''.pdf''"
    using endswith_same_length [OF assms(1), of "''.pdf''"] len assms(4) by auto
  ultimately show ?thesis by (simp add: load_data_def)
qed

theorem load_data_case_sensitive_witness:
  "endswith ''DATA.CSV'' ''.CSV'' \<and> lower ''.CSV'' = ''.csv''
   \<and> ''.CSV'' \<noteq> ''.csv'' \<and> ''.CSV'' \<noteq> ''.pdf''
   \<and> load_data \<lparr>pd_read_csv = (\<lambda>f. Inr []), tabula_read_pdf = (\<lambda>f. Inr []), pd_concat = (\<lambda>dfs. Inr (concat dfs))\<rparr>
        \<lparr>name = ''DATA.CSV'', content = []\<rparr>
      = ([StError ''Unsupported file format. Please upload a CSV or PDF file.''], Inr None)
   \<and> endswith ''Report.Pdf'' ''.Pdf'' \<and> lower ''.Pdf'' = ''.pdf''
   \<and> load_data \<lparr>pd_read_csv = (\<lambda>f. Inr []), tabula_read_pdf = (\<lambda>f. Inr []), pd_concat = (\<lambda>dfs. Inr (concat dfs))\<rparr>
        \<lparr>name = ''Report.Pdf'', content = []\<rparr>
      = ([StError ''Unsupported file format. Please upload a CSV or PDF file.''], Inr None)"
proof -
  let ?L = "\<lparr>pd_read_csv = (\<lambda>f. Inr []), tabula_read_pdf = (\<lambda>f. Inr []), pd_concat = (\<lambda>dfs. Inr (concat dfs))\<rparr>"
  have e1: "endswith (name \<lparr>name = ''DATA.CSV'', content = []\<rparr>) ''.CSV''"
    by (simp add: endswith_def)
  have l1: "lower ''.CSV'' = ''.csv''" by code_simp
  have e2: "endswith (name \<lparr>name = ''Report.Pdf'', content = []\<rparr>) ''.Pdf''"
    by (simp add: endswith_def)
  have l2: "lower ''.Pdf'' = ''.pdf''" by code_simp
  have n1: "''.CSV'' \<noteq> ''.csv''" "''.CSV'' \<noteq> ''.pdf''" by simp_all
  have n2: "''.Pdf'' \<noteq> ''.csv''" "''.Pdf'' \<noteq> ''.pdf''" by simp_all
  from load_data_case_sensitive [OF e1 disjI1 [OF l1] n1, of ?L]
       load_data_case_sensitive [OF e2 disjI2 [OF l2] n2, of ?L]
       e1 e2 l1 l2
  show ?thesis by simp
qed

text \<open>
  Claim C7, as amended. The PDF path never raises and calls the extractor once. It returns a
  dataset exactly when the extractor returns at least one table and the concatenation of the
  tables succeeds, and the dataset is that concatenation. It returns no dataset exactly when
  the extractor returns no table, the extractor raises, or the concatenation raises; it then
  reports one visible error. Nothing is tried again.
\<close>

theorem process_pdf_outcome:
  "(\<exists>r. snd (process_pdf L f) = Inr r)
   \<and> count_list (fst (process_pdf L f)) CallReadPdf = 1
   \<and> (snd (process_pdf L f) = Inr (Some d) \<longleftrightarrow>
        (\<exists>tl. tabula_read_pdf L f = Inr tl \<and> tl \<noteq> [] \<and> pd_concat L tl = Inr d))
   \<and> (snd (process_pdf L f) = Inr None \<longleftrightarrow>
        (tabula_read_pdf L f = Inr []
         \<or> (\<exists>e. tabula_read_pdf L f = Inl e)
         \<or> (\<exists>tl e. tabula_read_pdf L f = Inr tl \<and> tl \<noteq> [] \<and> pd_concat L tl = Inl e)))
   \<and> (snd (process_pdf L f) = Inr None \<longrightarrow>
        (\<exists>msg. filter (\<lambda>e. e \<noteq> CallReadPdf \<and> e \<noteq> CallConcat) (fst (process_pdf L f))
                = [StError msg]))
   \<and> (snd (process_pdf L f) \<noteq> Inr None \<longrightarrow> fst (process_pdf L f) = [CallReadPdf, CallConcat])"
  by (auto simp: process_pdf_def split: sum.splits)

text \<open>
  Claim C7 as stated fails: \<^verbatim>\<open>pd.concat\<close> is called inside the \<^verbatim>\<open>try\<close> block. When the
  extractor returns tables and does not raise, but the concatenation raises (as pandas does
  for tables with repeated column labels), the error is reported and no dataset is returned.
\<close>

theorem process_pdf_outcome_counterexample:
  "tabula_read_pdf
     \<lparr>pd_read_csv = always (Inr []),
        tabula_read_pdf = always (Inr [[\<lparr>label = ''a'', dtype = Int64, cells = [Num 1]\<rparr>,
                                        \<lparr>label = ''a'', dtype = Int64, cells = [Num 2]\<rparr>],
                                       [\<lparr>label = ''b'', dtype = Int64, cells = [Num 3]\<rparr>]]),
        pd_concat = always (Inl ''Reindexing only valid with uniquely valued Index objects'')\<rparr>
     \<lparr>name = ''statement.pdf'', content = []\<rparr>
   = Inr [[\<lparr>label = ''a'', dtype = Int64, cells = [Num 1]\<rparr>,
           \<lparr>label = ''a'', dtype = Int64, cells = [Num 2]\<rparr>],
          [\<lparr>label = ''b'', dtype = Int64, cells = [Num 3]\<rparr>]]
   \<and> process_pdf
     \<lparr>pd_read_csv = always (Inr []),
        tabula_read_pdf = always (Inr [[\<lparr>label = ''a'', dtype = Int64, cells = [Num 1]\<rparr>,
                                        \<lparr>label = ''a'', dtype = Int64, cells = [Num 2]\<rparr>],
                                       [\<lparr>label = ''b'', dtype = Int64, cells = [Num 3]\<rparr>]]),
        pd_concat = always (Inl ''Reindexing only valid with uniquely valued Index objects'')\<rparr>
     \<lparr>name = ''statement.pdf'', content = []\<rparr>
   = ([CallReadPdf, CallConcat,
       StError ''Error reading PDF: Reindexing only valid with uniquely valued Index objects''],
      Inr None)"
  by (simp add: process_pdf_def always_def)

theorem process_pdf_outcome_witness:
  "process_pdf
     \<lparr>pd_read_csv = (\<lambda>f. Inr []),
        tabula_read_pdf = (\<lambda>f. Inr [[\<lparr>label = ''a'', dtype = Int64, cells = [Num 1]\<rparr>],
                                    [\<lparr>label = ''a'', dtype = Int64, cells = [Num 2]\<rparr>]]),
        pd_concat = (\<lambda>dfs. Inr [\<lparr>label = ''a'', dtype = Int64,
                                  cells = concat (map (\<lambda>df. cells (hd df)) dfs)\<rparr>])\<rparr>
     \<lparr>name = ''statement.pdf'', content = []\<rparr>
   = ([CallReadPdf, CallConcat],
      Inr (Some [\<lparr>label = ''a'', dtype = Int64, cells = [Num 1, Num 2]\<rparr>]))
   \<and> process_pdf
        \<lparr>pd_read_csv = (\<lambda>f. Inr []), tabula_read_pdf = (\<lambda>f. Inr []),
           pd_concat = (\<lambda>dfs. Inr (concat dfs))\<rparr>
        \<lparr>name = ''empty.pdf'', content = []\<rparr>
     = ([CallReadPdf, StError ''No tables found in the PDF.''], Inr None)
   \<and> process_pdf
        \<lparr>pd_read_csv = (\<lambda>f. Inr []), tabula_read_pdf = (\<lambda>f. Inl ''corrupt file''),
           pd_concat = (\<lambda>dfs. Inr (concat dfs))\<rparr>
        \<lparr>name = ''broken.pdf'', content = []\<rparr>
     = ([CallReadPdf, StError ''Error reading PDF: corrupt file''], Inr None)"
proof -
  let ?col = "\<lambda>n. \<lparr>label = ''a'', dtype = Int64, cells = [Num n]\<rparr>"
  let ?L1 = "\<lparr>pd_read_csv = (\<lambda>f. Inr []),
        tabula_read_pdf = (\<lambda>f. Inr [[?col 1], [?col 2]]),
        pd_concat = (\<lambda>dfs. Inr [\<lparr>label = ''a'', dtype = Int64,
                                  cells = concat (map (\<lambda>df. cells (hd df)) dfs)\<rparr>])\<rparr>"
  let ?L2 = "\<lparr>pd_read_csv = (\<lambda>f. Inr []), tabula_read_pdf = (\<lambda>f. Inr []),
        pd_concat = (\<lambda>dfs. Inr (concat dfs))\<rparr>"
  let ?L3 = "\<lparr>pd_read_csv = (\<lambda>f. Inr []), tabula_read_pdf = (\<lambda>f. Inl ''corrupt file''),
        pd_concat = (\<lambda>dfs. Inr (concat dfs))\<rparr>"
  have a: "snd (process_pdf ?L1 \<lparr>name = ''statement.pdf'', content = []\<rparr>)
             = Inr (Some [\<lparr>label = ''a'', dtype = Int64, cells = [Num 1, Num 2]\<rparr>])
           \<and> fst (process_pdf ?L1 \<lparr>name = ''statement.pdf'', content = []\<rparr>)
             = [CallReadPdf, CallConcat]"
    using process_pdf_outcome [of ?L1 "\<lparr>name = ''statement.pdf'', content = []\<rparr>"
        "[\<lparr>label = ''a'', dtype = Int64, cells = [Num 1, Num 2]\<rparr>]"]
    by simp
  have b: "snd (process_pdf ?L2 \<lparr>name = ''empty.pdf'', content = []\<rparr>) = Inr None"
    using process_pdf_outcome [of ?L2 "\<lparr>name = ''empty.pdf'', content = []\<rparr>"] by simp
  have b': "process_pdf ?L2 \<lparr>name = ''empty.pdf'', content = []\<rparr>
             = ([CallReadPdf, StError ''No tables found in the PDF.''], Inr None)"
    by (simp add: process_pdf_def)
  have c: "process_pdf ?L3 \<lparr>name = ''broken.pdf'', content = []\<rparr>
             = ([CallReadPdf, StError ''Error reading PDF: corrupt file''], Inr None)"
    by (simp add: process_pdf_def)
  from a b b' c show ?thesis by (simp add: prod_eq_iff)
qed

section \<open>The category detector\<close>

lemma unique_from_snoc:
  "unique_from seen (xs @ [x]) =
     (if x \<in> set (unique_from seen xs) then unique_from seen xs else unique_from seen xs @ [x])"
  by (induction xs arbitrary: seen) auto

lemma unique_Nil [simp]: "unique [] = []"
  by (simp add: unique_def)

lemma unique_snoc:
  "unique (xs @ [x]) = (if x \<in> set (unique xs) then unique xs else unique xs @ [x])"
  by (simp add: unique_def unique_from_snoc)

lemma set_unique [simp]: "set (unique xs) = set xs"
  by (induction xs rule: rev_induct) (auto simp: unique_snoc)

lemma distinct_unique [simp]: "distinct (unique xs)"
  by (induction xs rule: rev_induct) (auto simp: unique_snoc)





lemma filter_label_single:
  "distinct (map label data) \<Longrightarrow> c \<in> set data \<Longrightarrow> filter (\<lambda>c'. label c' = label c) data = [c]"
proof (induction data)
  case Nil
  then show ?case by simp
next
  case (Cons d data)
  show ?case
  proof (cases "d = c")
    case True
    with Cons.prems have "label c \<notin> label ` set data" by simp
    then have "\<forall>c' \<in> set data. label c' \<noteq> label c" by (metis image_eqI)
    then have "filter (\<lambda>c'. label c' = label c) data = []" by (simp add: filter_empty_conv)
    with True show ?thesis by simp
  next
    case False
    with Cons.prems have "c \<in> set data" by simp
    moreover from this Cons.prems have "label d \<noteq> label c" by auto
    ultimately show ?thesis using Cons by simp
  qed
qed

lemma column_unique_distinct:
  "distinct (map label data) \<Longrightarrow> c \<in> set data \<Longrightarrow>
     column_unique data (label c) = Inr (unique (cells c))"
  by (simp add: column_unique_def filter_label_single)







lemma map_sum_not_PyList: "map_sum id NdArray x \<noteq> Inr (PyList cs)"
  by (cases x) auto

lemma column_unique_label:
  assumes "distinct (map label data)" and "l \<in> set (map label data)"
  shows "\<exists>c \<in> set data. label c = l \<and> column_unique data l = Inr (unique (cells c))"
proof -
  from assms(2) obtain c where c: "c \<in> set data" "label c = l" by auto
  with column_unique_distinct [OF assms(1) c(1)] show ?thesis by auto
qed

lemma category_labels_subset: "set (category_labels data) \<subseteq> set (map label data)"
  by (auto simp: category_labels_def)

lemma category_labels_nonempty:
  "''category'' \<in> set (map lower (map label data)) \<Longrightarrow> category_labels data \<noteq> []"
  by (auto simp: category_labels_def filter_empty_conv)

lemma categorical_columns_subset: "set (categorical_columns data) \<subseteq> set (map label data)"
  by (auto simp: categorical_columns_def)

lemma detect_categories_first_label:
  assumes "distinct (map label data)"
    and "''category'' \<in> set (map lower (map label data)) \<or> categorical_columns data \<noteq> []"
  shows "\<exists>c \<in> set data. detect_categories data = Inr (NdArray (unique (cells c)))"
proof (cases "''category'' \<in> set (map lower (map label data))")
  case True
  from category_labels_nonempty [OF True] obtain l ls
    where l: "category_labels data = l # ls" by (cases "category_labels data") auto
  then have "l \<in> set (map label data)" using category_labels_subset [of data] by auto
  from column_unique_label [OF assms(1) this] True l show ?thesis
    by (auto simp: detect_categories_def)
next
  case False
  with assms(2) obtain l ls where l: "categorical_columns data = l # ls"
    by (cases "categorical_columns data") auto
  then have "l \<in> set (map label data)" using categorical_columns_subset [of data] by auto
  from column_unique_label [OF assms(1) this] False l show ?thesis
    by (auto simp: detect_categories_def)
qed

text \<open>
  Claim C2, as amended. The detector returns a Python list only in the fallback step, and it
  takes that step exactly when no label reads \<open>category\<close> once lower-cased and no column is
  text-typed; a column named \<open>category\<close> is used whatever its dtype. A dataset without rows
  (labels pairwise distinct) that has a text-typed column or a column named \<open>category\<close>
  yields the empty array and not the fallback.
\<close>

theorem detect_categories_fallback:
  "(detect_categories data = Inr (PyList cs) \<longleftrightarrow>
      cs = fallback_categories
      \<and> ''category'' \<notin> set (map lower (map label data))
      \<and> categorical_columns data = [])
   \<and> (distinct (map label data) \<and> (\<forall>c \<in> set data. cells c = [])
        \<and> (''category'' \<in> set (map lower (map label data)) \<or> categorical_columns data \<noteq> [])
      \<longrightarrow> detect_categories data = Inr (NdArray []))"
proof (intro conjI impI)
  show "detect_categories data = Inr (PyList cs) \<longleftrightarrow>
      cs = fallback_categories
      \<and> ''category'' \<notin> set (map lower (map label data))
      \<and> categorical_columns data = []"
    by (auto simp: detect_categories_def map_sum_not_PyList split: list.splits)
next
  assume h: "distinct (map label data) \<and> (\<forall>c \<in> set data. cells c = [])
        \<and> (''category'' \<in> set (map lower (map label data)) \<or> categorical_columns data \<noteq> [])"
  then obtain c where "c \<in> set data" "detect_categories data = Inr (NdArray (unique (cells c)))"
    using detect_categories_first_label [of data] by blast
  with h show "detect_categories data = Inr (NdArray [])" by simp
qed

text \<open>
  Claim C2 as stated fails: a dataset whose only column is the integer column \<open>category\<close>
  has no text-typed column, and the detector returns the values of that column, not the
  fallback.
\<close>

theorem detect_categories_fallback_counterexample:
  "categorical_columns [\<lparr>label = ''category'', dtype = Int64, cells = [Num 1, Num 2, Num 1]\<rparr>] = []
   \<and> detect_categories [\<lparr>label = ''category'', dtype = Int64, cells = [Num 1, Num 2, Num 1]\<rparr>]
       = Inr (NdArray [Num 1, Num 2])
   \<and> detect_categories [\<lparr>label = ''category'', dtype = Int64, cells = [Num 1, Num 2, Num 1]\<rparr>]
       \<noteq> Inr (PyList fallback_categories)"
proof -
  have l: "lower ''category'' = ''category''" by code_simp
  show ?thesis
    by (simp add: l detect_categories_def categorical_columns_def category_labels_def
        column_unique_def unique_def)
qed

theorem detect_categories_fallback_witness:
  "detect_categories [\<lparr>label = ''amount'', dtype = Float64, cells = [Num 5]\<rparr>]
     = Inr (PyList [''Essential Bills'', ''Savings'', ''Investment'', ''Entertainment'', ''Shopping''])
   \<and> distinct (map label [\<lparr>label = ''Type'', dtype = Object, cells = []\<rparr>])
   \<and> categorical_columns [\<lparr>label = ''Type'', dtype = Object, cells = []\<rparr>] \<noteq> []
   \<and> detect_categories [\<lparr>label = ''Type'', dtype = Object, cells = []\<rparr>] = Inr (NdArray [])"
proof -
  let ?n = "[\<lparr>label = ''amount'', dtype = Float64, cells = [Num 5]\<rparr>]"
  let ?z = "[\<lparr>label = ''Type'', dtype = Object, cells = []\<rparr>]"
  have la: "lower ''amount'' = ''amount''" by code_simp
  have n: "''category'' \<notin> set (map lower (map label ?n)) \<and> categorical_columns ?n = []"
    by (simp add: la categorical_columns_def)
  have z: "distinct (map label ?z) \<and> (\<forall>c \<in> set ?z. cells c = [])
      \<and> (''category'' \<in> set (map lower (map label ?z)) \<or> categorical_columns ?z \<noteq> [])"
    by (simp add: categorical_columns_def)
  from detect_categories_fallback [of ?n fallback_categories] n
  have a: "detect_categories ?n = Inr (PyList fallback_categories)" by blast
  from detect_categories_fallback [of ?z "[]"] z
  have b: "detect_categories ?z = Inr (NdArray [])" by blast
  from a b z show ?thesis by (simp add: fallback_categories_def categorical_columns_def)
qed


section \<open>The recommendation generator\<close>

declare show_nat.simps [simp del]

text \<open>Reading back what \<open>show_nat\<close> and \<open>format_2f\<close> print.\<close>

lemma digit_value_digits: "list_all (\<lambda>k. digit_value (digit_char k) = Some k) [0..<10]"
  by code_simp

lemma digit_value_digit_char: "digit_value (digit_char d) = Some (d mod 10)"
proof -
  have "d mod 10 \<in> set [0..<10]" by simp
  with digit_value_digits have "digit_value (digit_char (d mod 10)) = Some (d mod 10)"
    unfolding list_all_iff by blast
  moreover have "digit_char (d mod 10) = digit_char d" by (simp add: digit_char_def)
  ultimately show ?thesis by simp
qed

lemma read_digits_snoc:
  "read_digits acc (xs @ [c]) =
     (case read_digits acc xs of
        None \<Rightarrow> None
      | Some a \<Rightarrow> (case digit_value c of None \<Rightarrow> None | Some d \<Rightarrow> Some (10 * a + d)))"
  by (induction xs arbitrary: acc) (auto split: option.splits)

lemma show_nat_nonempty: "show_nat n \<noteq> []"
  by (subst show_nat.simps) simp

lemma read_digits_show_nat: "read_digits 0 (show_nat n) = Some n"
proof (induction n rule: show_nat.induct)
  case (1 n)
  show ?case
  proof (cases "n < 10")
    case True
    then have "show_nat n = [digit_char n]" by (subst show_nat.simps) simp
    with True show ?thesis by (simp add: digit_value_digit_char)
  next
    case False
    then have "show_nat n = show_nat (n div 10) @ [digit_char (n mod 10)]"
      by (subst show_nat.simps) simp
    with "1.IH" [OF False] show ?thesis
      by (simp add: read_digits_snoc digit_value_digit_char)
  qed
qed

lemma read_nat_show_nat: "read_nat (show_nat n) = Some n"
  by (simp add: read_nat_def show_nat_nonempty read_digits_show_nat)

lemma read_nat_two_digits:
  "read_nat [digit_char a, digit_char b] = Some (10 * (a mod 10) + b mod 10)"
  by (simp add: read_nat_def digit_value_digit_char)

lemma round_half_even_nonneg: "0 \<le> x \<Longrightarrow> 0 \<le> round_half_even x"
proof -
  assume "0 \<le> x"
  then have "0 \<le> \<lfloor>x\<rfloor>" by simp
  then show ?thesis by (auto simp: round_half_even_def Let_def)
qed

lemma read_2f_cents:
  "read_2f (show_nat (c div 100) @ ''.'' @ [digit_char (c mod 100 div 10), digit_char (c mod 10)])
     = Some (of_nat c / 100)"
proof -
  let ?i = "show_nat (c div 100)"
  let ?s = "?i @ ''.'' @ [digit_char (c mod 100 div 10), digit_char (c mod 10)]"
  have len: "length ?s = length ?i + 3" by simp
  have pos: "0 < length ?i" using show_nat_nonempty [of "c div 100"] by simp
  have t: "take (length ?s - 3) ?s = ?i" by simp
  have d: "drop (length ?s - 2) ?s = [digit_char (c mod 100 div 10), digit_char (c mod 10)]"
    by simp
  have p: "?s ! (length ?s - 3) = CHR ''.''" by (simp add: nth_append)
  have frac: "10 * (c mod 100 div 10 mod 10) + c mod 10 mod 10 = c mod 100"
  proof -
    define m where "m = c mod 100"
    have m: "m < 100" by (simp add: m_def)
    have "c mod 10 = m mod 10" by (simp add: m_def mod_mod_cancel)
    moreover from m have "m div 10 mod 10 = m div 10" by simp
    ultimately show ?thesis by (simp add: m_def [symmetric])
  qed
  have split: "(of_nat c :: rat) = 100 * of_nat (c div 100) + of_nat (c mod 100)"
  proof -
    have "(of_nat c :: rat) = of_nat (100 * (c div 100) + c mod 100)"
      by (simp only: mult_div_mod_eq)
    then show ?thesis by (simp only: of_nat_add of_nat_mult of_nat_numeral)
  qed
  have val: "(of_nat (c div 100) :: rat) + of_nat (c mod 100) / 100 = of_nat c / 100"
    by (simp only: split) (simp add: field_simps)
  have guard: "\<not> (length ?s < 4 \<or> ?s ! (length ?s - 3) \<noteq> CHR ''.'')"
    using pos by (simp only: p len) simp
  have "read_2f ?s =
      (case (read_nat (take (length ?s - 3) ?s), read_nat (drop (length ?s - 2) ?s)) of
         (Some i, Some f) \<Rightarrow> Some (of_nat i + of_nat f / 100)
       | _ \<Rightarrow> None)"
    unfolding read_2f_def using guard by (simp only: if_False)
  also have "\<dots> = Some (of_nat (c div 100) + of_nat (c mod 100) / 100)"
    by (simp only: t d read_nat_show_nat read_nat_two_digits frac prod.case option.case)
  finally show ?thesis by (simp only: val)
qed

lemma read_2f_format_2f:
  assumes "0 \<le> q"
  shows "read_2f (format_2f q) = Some (of_int (round_half_even (q * 100)) / 100)"
proof -
  from assms have nn: "0 \<le> round_half_even (q * 100)"
    by (intro round_half_even_nonneg) simp
  from assms have "format_2f q =
      show_nat (nat (round_half_even (q * 100)) div 100) @ ''.'' @
      [digit_char (nat (round_half_even (q * 100)) mod 100 div 10),
       digit_char (nat (round_half_even (q * 100)) mod 10)]"
    by (simp add: format_2f_def Let_def)
  then have "read_2f (format_2f q) = Some (of_nat (nat (round_half_even (q * 100))) / 100)"
    by (simp only: read_2f_cents)
  with nn show ?thesis by simp
qed


text \<open>
  The code formats the float \<^verbatim>\<open>savings_goal/30\<close>, the model the exact quotient. For an
  integer goal the exact quotient times 100 stays at least 1/6 away from every rounding tie,
  far more than the error of the float division, so both print the same two decimals.
\<close>

lemma daily_figure_no_tie:
  "\<bar>of_nat g / 30 * 100 - (of_int k + 1 / 2 :: rat)\<bar> \<ge> 1 / 6"
proof -
  have odd: "odd (20 * int g - 6 * k - 3)" by simp
  then have "20 * int g - 6 * k - 3 \<noteq> 0" by (metis even_zero)
  then have "\<bar>20 * int g - 6 * k - 3\<bar> \<ge> 1" by linarith
  then have "(1 :: rat) \<le> of_int \<bar>20 * int g - 6 * k - 3\<bar>"
    by (metis of_int_1_le_iff)
  also have "\<dots> = \<bar>20 * of_nat g - 6 * of_int k - 3\<bar>" by simp
  finally have "(1 :: rat) \<le> \<bar>20 * of_nat g - 6 * of_int k - 3\<bar>" .
  then have "1 / 6 \<le> \<bar>(20 * of_nat g - 6 * of_int k - 3) / (6 :: rat)\<bar>"
    by simp
  moreover have "of_nat g / 30 * 100 - (of_int k + 1 / 2 :: rat)
      = (20 * of_nat g - 6 * of_int k - 3) / 6" by (simp add: field_simps)
  ultimately show ?thesis by (simp only:)
qed

lemma startswith_append: "startswith (sub @ post) sub"
  by (induction sub) auto

lemma py_in_here: "py_in sub (sub @ post)"
proof (cases "sub @ post")
  case Nil
  then show ?thesis by simp
next
  case (Cons a l)
  with startswith_append [of sub post] show ?thesis by simp
qed

lemma py_in_later: "py_in sub s \<Longrightarrow> py_in sub (pre @ s)"
  by (induction pre) auto

lemma py_in_append: "py_in sub (pre @ sub @ post)"
  by (rule py_in_later) (rule py_in_here)

lemma round_half_even_near: "\<bar>of_int (round_half_even x) - x\<bar> \<le> 1 / 2"
proof -
  have "of_int \<lfloor>x\<rfloor> \<le> x" "x < of_int \<lfloor>x\<rfloor> + 1" by linarith+
  then show ?thesis
    by (auto simp: round_half_even_def Let_def)
qed

lemma two_decimals_near:
  "\<bar>of_int (round_half_even (q * 100)) / 100 - q\<bar> \<le> 1 / 200"
  using round_half_even_near [of "q * 100"] by (simp add: field_simps abs_le_iff)

lemma printed_figure:
  "\<exists>r. read_2f (format_2f (of_nat g / 30)) = Some r
       \<and> r = of_int (round_half_even (of_nat g / 30 * 100)) / 100
       \<and> \<bar>r - of_nat g / 30\<bar> \<le> 1 / 200"
proof -
  have "(0 :: rat) \<le> of_nat g / 30" by simp
  from read_2f_format_2f [OF this] two_decimals_near [of "of_nat g / 30"]
  show ?thesis by blast
qed

lemma recommendations_not_text:
  "recommendations B g (Num x)
     = ([chart_emoji @ '' '' @ str_number B x @ '' Recommendations:''], Inl AttributeError)"
  "recommendations B g NaN = ([chart_emoji @ '' nan Recommendations:''], Inl AttributeError)"
  by (simp_all add: recommendations_def py_str_def)

text \<open>
  Claim C4. For every label (a text) the advice is chosen by the first keyword that occurs in
  the lower-cased label, tried in the order \<open>saving\<close>, \<open>invest\<close>, \<open>bill\<close>; without a
  keyword the generic advice is written, and it mentions the label. Only one rule fires. The
  daily figure printed in the savings advice reads as a number with two decimals, and that
  number is the monthly goal divided by 30 rounded to the nearest hundredth: \<open>Savings Goal\<close>
  with goal 900 gives a line containing \<open>30.00\<close>, and goal 20 prints \<open>0.67\<close>.
\<close>

theorem recommendations_dispatch:
  "(py_in ''saving'' (lower c) \<longrightarrow>
      recommendations B g (Str c) =
        ([chart_emoji @ '' '' @ c @ '' Recommendations:'',
          ''- Set up automatic transfers to savings account'',
          ''- To reach your $'' @ show_nat g @ '' monthly goal, save $'' @
            format_2f (of_nat g / 30) @ '' daily''], Inr ()))
   \<and> (\<not> py_in ''saving'' (lower c) \<and> py_in ''invest'' (lower c) \<longrightarrow>
      recommendations B g (Str c) =
        ([chart_emoji @ '' '' @ c @ '' Recommendations:'',
          ''- Consider low-cost index funds'',
          ''- Diversify your investment portfolio''], Inr ()))
   \<and> (\<not> py_in ''saving'' (lower c) \<and> \<not> py_in ''invest'' (lower c) \<and> py_in ''bill'' (lower c) \<longrightarrow>
      recommendations B g (Str c) =
        ([chart_emoji @ '' '' @ c @ '' Recommendations:'',
          ''- Set up automatic bill payments'',
          ''- Review subscriptions monthly''], Inr ()))
   \<and> (\<not> py_in ''saving'' (lower c) \<and> \<not> py_in ''invest'' (lower c) \<and> \<not> py_in ''bill'' (lower c) \<longrightarrow>
      recommendations B g (Str c) =
        ([chart_emoji @ '' '' @ c @ '' Recommendations:'',
          ''- Create a budget for '' @ c,
          ''- Track '' @ str_lower B c @ '' expenses regularly''], Inr ())
      \<and> py_in c (fst (recommendations B g (Str c)) ! 1))
   \<and> (\<exists>r. read_2f (format_2f (of_nat g / 30)) = Some r
         \<and> r = of_int (round_half_even (of_nat g / 30 * 100)) / 100
         \<and> \<bar>r - of_nat g / 30\<bar> \<le> 1 / 200)"
proof -
  have gen: "py_in c (''- Create a budget for '' @ c)"
    using py_in_append [of c "''- Create a budget for ''" "[]"] by simp
  have disp: "recommendations B g (Str c) =
      ((chart_emoji @ '' '' @ c @ '' Recommendations:'') #
       (if py_in ''saving'' (lower c) then
          [''- Set up automatic transfers to savings account'',
           ''- To reach your $'' @ show_nat g @ '' monthly goal, save $'' @
             format_2f (of_nat g / 30) @ '' daily'']
        else if py_in ''invest'' (lower c) then
          [''- Consider low-cost index funds'', ''- Diversify your investment portfolio'']
        else if py_in ''bill'' (lower c) then
          [''- Set up automatic bill payments'', ''- Review subscriptions monthly'']
        else
          [''- Create a budget for '' @ c,
           ''- Track '' @ str_lower B c @ '' expenses regularly'']), Inr ())"
    by (simp add: recommendations_def py_str_def)
  show ?thesis
  proof (intro conjI impI)
    show "\<exists>r. read_2f (format_2f (of_nat g / 30)) = Some r
         \<and> r = of_int (round_half_even (of_nat g / 30 * 100)) / 100
         \<and> \<bar>r - of_nat g / 30\<bar> \<le> 1 / 200" by (rule printed_figure)
  next
    assume "\<not> py_in ''saving'' (lower c) \<and> \<not> py_in ''invest'' (lower c) \<and> \<not> py_in ''bill'' (lower c)"
    then show "py_in c (fst (recommendations B g (Str c)) ! 1)"
      using gen by (simp only: disp if_False fst_conv nth_Cons_Suc nth_Cons_0 One_nat_def)
  qed (simp_all only: disp if_True if_False simp_thms)
qed


theorem recommendations_dispatch_witness:
  "py_in ''saving'' (lower ''Savings Goal'')
   \<and> recommendations \<lparr>str_lower = lower, str_number = always ''0''\<rparr> 900 (Str ''Savings Goal'') =
        ([chart_emoji @ '' Savings Goal Recommendations:'',
          ''- Set up automatic transfers to savings account'',
          ''- To reach your $900 monthly goal, save $30.00 daily''], Inr ())
   \<and> py_in ''30.00'' ''- To reach your $900 monthly goal, save $30.00 daily''
   \<and> py_in ''invest'' (lower ''Savings and Investment Bills'')
   \<and> py_in ''bill'' (lower ''Savings and Investment Bills'')
   \<and> recommendations \<lparr>str_lower = lower, str_number = always ''0''\<rparr> 20
        (Str ''Savings and Investment Bills'') =
        ([chart_emoji @ '' Savings and Investment Bills Recommendations:'',
          ''- Set up automatic transfers to savings account'',
          ''- To reach your $20 monthly goal, save $0.67 daily''], Inr ())
   \<and> read_2f (format_2f (of_nat 20 / 30)) = Some (67 / 100)
   \<and> recommendations \<lparr>str_lower = lower, str_number = always ''0''\<rparr> 900 (Str ''Groceries'') =
        ([chart_emoji @ '' Groceries Recommendations:'',
          ''- Create a budget for Groceries'',
          ''- Track groceries expenses regularly''], Inr ())
   \<and> py_in ''Groceries'' ''- Create a budget for Groceries''"
proof -
  let ?B = "\<lparr>str_lower = lower, str_number = always ''0''\<rparr>"
  have s1: "py_in ''saving'' (lower ''Savings Goal'')" by code_simp
  have s2: "py_in ''saving'' (lower ''Savings and Investment Bills'')" by code_simp
  have i2: "py_in ''invest'' (lower ''Savings and Investment Bills'')" by code_simp
  have b2: "py_in ''bill'' (lower ''Savings and Investment Bills'')" by code_simp
  have g: "\<not> py_in ''saving'' (lower ''Groceries'') \<and> \<not> py_in ''invest'' (lower ''Groceries'')
           \<and> \<not> py_in ''bill'' (lower ''Groceries'')" by code_simp
  have lg: "lower ''Groceries'' = ''groceries''" by code_simp
  have f1: "format_2f (of_nat 900 / 30) = ''30.00''" by code_simp
  have f2: "format_2f (of_nat 20 / 30) = ''0.67''" by code_simp
  have n1: "show_nat 900 = ''900''" by code_simp
  have n2: "show_nat 20 = ''20''" by code_simp
  have r2: "round_half_even (of_nat 20 / 30 * 100) = 67" by code_simp
  have p1: "py_in ''30.00'' ''- To reach your $900 monthly goal, save $30.00 daily''"
    by code_simp
  have p2: "py_in ''Groceries'' ''- Create a budget for Groceries''" by code_simp
  from recommendations_dispatch [of "''Savings Goal''" ?B 900] s1
  have "recommendations ?B 900 (Str ''Savings Goal'') =
        ([chart_emoji @ '' '' @ ''Savings Goal'' @ '' Recommendations:'',
          ''- Set up automatic transfers to savings account'',
          ''- To reach your $'' @ show_nat 900 @ '' monthly goal, save $'' @
            format_2f (of_nat 900 / 30) @ '' daily''], Inr ())"
    by blast
  then have a: "recommendations ?B 900 (Str ''Savings Goal'') =
        ([chart_emoji @ '' Savings Goal Recommendations:'',
          ''- Set up automatic transfers to savings account'',
          ''- To reach your $900 monthly goal, save $30.00 daily''], Inr ())"
    by (simp only: f1 n1 append.simps)
  from recommendations_dispatch [of "''Savings and Investment Bills''" ?B 20] s2
  have "recommendations ?B 20 (Str ''Savings and Investment Bills'') =
        ([chart_emoji @ '' '' @ ''Savings and Investment Bills'' @ '' Recommendations:'',
          ''- Set up automatic transfers to savings account'',
          ''- To reach your $'' @ show_nat 20 @ '' monthly goal, save $'' @
            format_2f (of_nat 20 / 30) @ '' daily''], Inr ())"
    and "read_2f (format_2f (of_nat 20 / 30))
          = Some (of_int (round_half_even (of_nat 20 / 30 * 100)) / 100)"
    by blast+
  then have b: "recommendations ?B 20 (Str ''Savings and Investment Bills'') =
        ([chart_emoji @ '' Savings and Investment Bills Recommendations:'',
          ''- Set up automatic transfers to savings account'',
          ''- To reach your $20 monthly goal, save $0.67 daily''], Inr ())"
    and b': "read_2f (format_2f (of_nat 20 / 30)) = Some (67 / 100)"
    by (simp_all only: f2 n2 r2 append.simps of_int_numeral)
  from recommendations_dispatch [of "''Groceries''" ?B 900] g
  have "recommendations ?B 900 (Str ''Groceries'') =
        ([chart_emoji @ '' '' @ ''Groceries'' @ '' Recommendations:'',
          ''- Create a budget for '' @ ''Groceries'',
          ''- Track '' @ str_lower ?B ''Groceries'' @ '' expenses regularly''], Inr ())"
    by blast
  then have c: "recommendations ?B 900 (Str ''Groceries'') =
        ([chart_emoji @ '' Groceries Recommendations:'',
          ''- Create a budget for Groceries'',
          ''- Track groceries expenses regularly''], Inr ())"
    by (simp add: lg)
  from a b b' c s1 i2 b2 p1 p2 show ?thesis by (simp only: simp_thms)
qed


section \<open>The chart builder: numeric axes\<close>

lemma selectbox_in:
  "options \<noteq> [] \<Longrightarrow> \<exists>x \<in> set options. selectbox w cap options = Some x"
  unfolding selectbox_def using nth_mem [of "w cap" options] hd_in_set [of options] by auto

lemma numeric_columns_labels:
  "l \<in> set (numeric_columns data) \<Longrightarrow>
     \<exists>col \<in> set data. l = label col \<and> (dtype col = Float64 \<or> dtype col = Int64)"
  by (auto simp: numeric_columns_def)

lemma numeric_columns_empty:
  "numeric_columns data = [] \<longleftrightarrow> (\<forall>col \<in> set data. dtype col \<noteq> Float64 \<and> dtype col \<noteq> Int64)"
  by (auto simp: numeric_columns_def filter_empty_conv)

lemma create_dashboard_chart:
  assumes "numeric_columns data \<noteq> []"
  shows "\<exists>c. create_dashboard w data = ([StPlotlyChart c], Inr ())
           \<and> set (axes c) \<subseteq> Some ` set (numeric_columns data)"
proof -
  from selectbox_in [of chart_types w "''Select Chart Type''"]
  obtain t where t: "t \<in> set chart_types" "selectbox w ''Select Chart Type'' chart_types = Some t"
    by (auto simp: chart_types_def)
  from selectbox_in [OF assms]
  obtain x where x: "x \<in> set (numeric_columns data)"
      "selectbox w ''X-Axis'' (numeric_columns data) = Some x" by blast
  from selectbox_in [OF assms]
  obtain y where y: "y \<in> set (numeric_columns data)"
      "selectbox w ''Y-Axis'' (numeric_columns data) = Some y" by blast
  from selectbox_in [OF assms]
  obtain z where z: "z \<in> set (numeric_columns data)"
      "selectbox w ''Z-Axis'' (numeric_columns data) = Some z" by blast
  from assms obtain col cols where d: "data = col # cols"
    by (cases data) (auto simp: numeric_columns_def)
  from t(1) have "t = ''Bar Chart'' \<or> t = ''Line Chart'' \<or> t = ''Pie Chart''
      \<or> t = ''3D Scatter Plot'' \<or> t = ''Area Chart''"
    by (simp add: chart_types_def)
  then show ?thesis
    using assms t(2) x y z
    by (elim disjE) (simp_all add: create_dashboard_def Let_def d)
qed

text \<open>
  Claim C8. Without a numeric-typed column (dtype float or int) the chart builder reports the
  no-numeric-columns error and builds no chart. With one, it builds exactly one chart, and each
  of the x, y and z axis selections the chart is built from is the label of a numeric-typed
  column.
\<close>

theorem create_dashboard_numeric_only:
  "((\<forall>col \<in> set data. dtype col \<noteq> Float64 \<and> dtype col \<noteq> Int64) \<longrightarrow>
      create_dashboard w data = ([StError ''No numeric columns found for visualization.''], Inr ()))
   \<and> ((\<exists>col \<in> set data. dtype col = Float64 \<or> dtype col = Int64) \<longrightarrow>
      (\<exists>c. create_dashboard w data = ([StPlotlyChart c], Inr ())
         \<and> (\<forall>a \<in> set (axes c). \<exists>col \<in> set data.
               a = Some (label col) \<and> (dtype col = Float64 \<or> dtype col = Int64))))"
proof (intro conjI impI)
  assume "\<forall>col \<in> set data. dtype col \<noteq> Float64 \<and> dtype col \<noteq> Int64"
  then have "numeric_columns data = []" by (simp add: numeric_columns_empty)
  then show "create_dashboard w data
      = ([StError ''No numeric columns found for visualization.''], Inr ())"
    by (simp add: create_dashboard_def Let_def)
next
  assume "\<exists>col \<in> set data. dtype col = Float64 \<or> dtype col = Int64"
  then have "numeric_columns data \<noteq> []" by (auto simp: numeric_columns_empty)
  from create_dashboard_chart [OF this, of w]
  obtain c where c: "create_dashboard w data = ([StPlotlyChart c], Inr ())"
      "set (axes c) \<subseteq> Some ` set (numeric_columns data)" by blast
  have "\<forall>a \<in> set (axes c). \<exists>col \<in> set data.
          a = Some (label col) \<and> (dtype col = Float64 \<or> dtype col = Int64)"
  proof
    fix a assume "a \<in> set (axes c)"
    with c(2) obtain l where "l \<in> set (numeric_columns data)" "a = Some l" by auto
    with numeric_columns_labels [of l data] show "\<exists>col \<in> set data.
          a = Some (label col) \<and> (dtype col = Float64 \<or> dtype col = Int64)" by auto
  qed
  with c(1) show "\<exists>c. create_dashboard w data = ([StPlotlyChart c], Inr ())
         \<and> (\<forall>a \<in> set (axes c). \<exists>col \<in> set data.
               a = Some (label col) \<and> (dtype col = Float64 \<or> dtype col = Int64))" by blast
qed


theorem create_dashboard_numeric_only_witness:
  "create_dashboard (\<lambda>cap. 0) [\<lparr>label = ''Type'', dtype = Object, cells = [Str ''A'']\<rparr>]
     = ([StError ''No numeric columns found for visualization.''], Inr ())
   \<and> create_dashboard
        (\<lambda>cap. if cap = ''Select Chart Type'' then 3 else if cap = ''Y-Axis'' then 1 else 0)
        [\<lparr>label = ''Type'', dtype = Object, cells = [Str ''A'']\<rparr>,
         \<lparr>label = ''amount'', dtype = Float64, cells = [Num 5]\<rparr>,
         \<lparr>label = ''count'', dtype = Int64, cells = [Num 2]\<rparr>]
     = ([StPlotlyChart (Scatter3D (Some ''amount'') (Some ''count'') (Some ''amount'')
                          (Some ''Type'') Prism)], Inr ())"
proof -
  let ?t = "\<lparr>label = ''Type'', dtype = Object, cells = [Str ''A'']\<rparr>"
  have "\<forall>col \<in> set [?t]. dtype col \<noteq> Float64 \<and> dtype col \<noteq> Int64" by simp
  with create_dashboard_numeric_only [of "[?t]" "\<lambda>cap. 0"]
  have a: "create_dashboard (\<lambda>cap. 0) [?t]
     = ([StError ''No numeric columns found for visualization.''], Inr ())" by blast
  have b: "create_dashboard
        (\<lambda>cap. if cap = ''Select Chart Type'' then 3 else if cap = ''Y-Axis'' then 1 else 0)
        [?t, \<lparr>label = ''amount'', dtype = Float64, cells = [Num 5]\<rparr>,
         \<lparr>label = ''count'', dtype = Int64, cells = [Num 2]\<rparr>]
     = ([StPlotlyChart (Scatter3D (Some ''amount'') (Some ''count'') (Some ''amount'')
                          (Some ''Type'') Prism)], Inr ())"
    by (simp add: create_dashboard_def selectbox_def numeric_columns_def chart_types_def)
  from a b show ?thesis by simp
qed


end
